theory Spec2Isabelle
  imports Main "HOL-Library.Word"
begin

section \<open>IEEE-754 binary interchange formats\<close>

text \<open>
  The kernels of \<^verbatim>\<open>research/test_gpus.py\<close> add and multiply \<^verbatim>\<open>float32\<close> values, and
  the durations are differences of Python floats (binary64). Both formats are instances
  of one bit-level model: a pattern is a natural number below \<open>2 ^ (1 + ew + fw)\<close>, with
  \<open>ew\<close> exponent bits above \<open>fw\<close> fraction bits and the sign bit on top. Arithmetic is
  exact on the integers \<open>significand * 2 ^ scale\<close> and then rounded to nearest, ties to
  even, which is the rounding mode NumPy, Numba and CPython run under.
\<close>

definition bias :: "nat \<Rightarrow> nat" where
  "bias ew = 2 ^ (ew - 1) - 1"

definition sign_bit :: "nat \<Rightarrow> nat \<Rightarrow> nat \<Rightarrow> bool" where
  "sign_bit ew fw x = (x div 2 ^ (ew + fw) mod 2 = 1)"

definition expo :: "nat \<Rightarrow> nat \<Rightarrow> nat \<Rightarrow> nat" where
  "expo ew fw x = x div 2 ^ fw mod 2 ^ ew"

definition frac :: "nat \<Rightarrow> nat \<Rightarrow> nat" where
  "frac fw x = x mod 2 ^ fw"

definition is_nan :: "nat \<Rightarrow> nat \<Rightarrow> nat \<Rightarrow> bool" where
  "is_nan ew fw x = (expo ew fw x = 2 ^ ew - 1 \<and> frac fw x \<noteq> 0)"

definition is_inf :: "nat \<Rightarrow> nat \<Rightarrow> nat \<Rightarrow> bool" where
  "is_inf ew fw x = (expo ew fw x = 2 ^ ew - 1 \<and> frac fw x = 0)"

definition is_finite :: "nat \<Rightarrow> nat \<Rightarrow> nat \<Rightarrow> bool" where
  "is_finite ew fw x = (expo ew fw x < 2 ^ ew - 1)"

text \<open>The significand as an integer, with the hidden bit of a normal number.\<close>

definition mant :: "nat \<Rightarrow> nat \<Rightarrow> nat \<Rightarrow> nat" where
  "mant ew fw x = (if expo ew fw x = 0 then frac fw x else 2 ^ fw + frac fw x)"

text \<open>The exponent of the last place: a finite \<open>x\<close> is \<open>\<plusminus> mant x * 2 ^ scale x\<close>.\<close>

definition scale :: "nat \<Rightarrow> nat \<Rightarrow> nat \<Rightarrow> int" where
  "scale ew fw x = int (max (expo ew fw x) 1) - int (bias ew) - int fw"

definition smant :: "nat \<Rightarrow> nat \<Rightarrow> nat \<Rightarrow> int" where
  "smant ew fw x = (if sign_bit ew fw x then - int (mant ew fw x) else int (mant ew fw x))"

definition sign_mask :: "nat \<Rightarrow> nat \<Rightarrow> bool \<Rightarrow> nat" where
  "sign_mask ew fw s = (if s then 2 ^ (ew + fw) else 0)"

definition inf_body :: "nat \<Rightarrow> nat \<Rightarrow> nat" where
  "inf_body ew fw = (2 ^ ew - 1) * 2 ^ fw"

text \<open>
  The NaN an invalid operation produces. Which payload and sign the hardware gives is
  platform-specific; the model returns the positive quiet NaN with an empty payload.
\<close>

definition default_nan :: "nat \<Rightarrow> nat \<Rightarrow> nat" where
  "default_nan ew fw = inf_body ew fw + 2 ^ (fw - 1)"

fun bitlen :: "nat \<Rightarrow> nat" where
  "bitlen n = (if n = 0 then 0 else Suc (bitlen (n div 2)))"

declare bitlen.simps [simp del]

text \<open>Dropping the low \<open>k\<close> bits of \<open>m\<close>, to nearest, ties to even.\<close>

definition rne :: "nat \<Rightarrow> nat \<Rightarrow> nat" where
  "rne m k =
     (let d = m div 2 ^ k; r = m mod 2 ^ k; h = 2 ^ (k - 1)
      in if r > h \<or> (r = h \<and> odd d) then d + 1 else d)"

text \<open>
  \<open>round_pack ew fw s m e\<close> is the pattern nearest to \<open>\<plusminus> m * 2 ^ e\<close>. The last place
  \<open>q\<close> of the result keeps \<open>fw + 1\<close> significant bits and never goes below the last
  place of the subnormals. A significand that rounds up to \<open>2 ^ (fw + 1)\<close> carries into
  the exponent field by the addition itself, and a result at or above the exponent of all
  ones is infinity.
\<close>

definition round_pack :: "nat \<Rightarrow> nat \<Rightarrow> bool \<Rightarrow> nat \<Rightarrow> int \<Rightarrow> nat" where
  "round_pack ew fw s m e =
     (let qmin = 1 - int (bias ew) - int fw;
          q = max (e + int (bitlen m) - int (fw + 1)) qmin;
          m' = (if q \<le> e then m * 2 ^ nat (e - q) else rne m (nat (q - e)));
          body = (if m' < 2 ^ fw then m' else (nat (q - qmin) + 1) * 2 ^ fw + (m' - 2 ^ fw))
      in sign_mask ew fw s + min body (inf_body ew fw))"

definition fp_add :: "nat \<Rightarrow> nat \<Rightarrow> nat \<Rightarrow> nat \<Rightarrow> nat" where
  "fp_add ew fw x y =
     (if is_nan ew fw x \<or> is_nan ew fw y then default_nan ew fw
      else if is_inf ew fw x then
        (if is_inf ew fw y \<and> sign_bit ew fw x \<noteq> sign_bit ew fw y then default_nan ew fw else x)
      else if is_inf ew fw y then y
      else
        (let e = min (scale ew fw x) (scale ew fw y);
             t = smant ew fw x * 2 ^ nat (scale ew fw x - e)
               + smant ew fw y * 2 ^ nat (scale ew fw y - e)
         in if t = 0 then sign_mask ew fw (sign_bit ew fw x \<and> sign_bit ew fw y)
            else round_pack ew fw (t < 0) (nat \<bar>t\<bar>) e))"

definition fp_mul :: "nat \<Rightarrow> nat \<Rightarrow> nat \<Rightarrow> nat \<Rightarrow> nat" where
  "fp_mul ew fw x y =
     (let s = (sign_bit ew fw x \<noteq> sign_bit ew fw y)
      in if is_nan ew fw x \<or> is_nan ew fw y then default_nan ew fw
         else if is_inf ew fw x \<or> is_inf ew fw y then
           (if mant ew fw x = 0 \<and> is_finite ew fw x \<or> mant ew fw y = 0 \<and> is_finite ew fw y
            then default_nan ew fw
            else sign_mask ew fw s + inf_body ew fw)
         else round_pack ew fw s (mant ew fw x * mant ew fw y)
                (scale ew fw x + scale ew fw y))"

definition fp_neg :: "nat \<Rightarrow> nat \<Rightarrow> nat \<Rightarrow> nat" where
  "fp_neg ew fw x = (if sign_bit ew fw x then x - 2 ^ (ew + fw) else x + 2 ^ (ew + fw))"

definition fp_sub :: "nat \<Rightarrow> nat \<Rightarrow> nat \<Rightarrow> nat \<Rightarrow> nat" where
  "fp_sub ew fw x y = fp_add ew fw x (fp_neg ew fw y)"

text \<open>The comparison \<open>x <= y\<close> of IEEE-754: false on a NaN, and the two zeros are equal.\<close>

definition fp_le :: "nat \<Rightarrow> nat \<Rightarrow> nat \<Rightarrow> nat \<Rightarrow> bool" where
  "fp_le ew fw x y =
     (\<not> is_nan ew fw x \<and> \<not> is_nan ew fw y \<and>
      (if sign_bit ew fw x then
         (if sign_bit ew fw y then y mod 2 ^ (ew + fw) \<le> x mod 2 ^ (ew + fw) else True)
       else
         (if sign_bit ew fw y then x mod 2 ^ (ew + fw) = 0 \<and> y mod 2 ^ (ew + fw) = 0
          else x \<le> y)))"

definition fp_eq :: "nat \<Rightarrow> nat \<Rightarrow> nat \<Rightarrow> nat \<Rightarrow> bool" where
  "fp_eq ew fw x y = (fp_le ew fw x y \<and> fp_le ew fw y x)"

subsection \<open>binary32 and binary64\<close>

type_synonym float32 = "32 word"
type_synonym float64 = "64 word"

definition f32_add :: "float32 \<Rightarrow> float32 \<Rightarrow> float32" where
  "f32_add a b = word_of_nat (fp_add 8 23 (unat a) (unat b))"

definition f32_mul :: "float32 \<Rightarrow> float32 \<Rightarrow> float32" where
  "f32_mul a b = word_of_nat (fp_mul 8 23 (unat a) (unat b))"

definition f32_eq :: "float32 \<Rightarrow> float32 \<Rightarrow> bool" where
  "f32_eq a b = fp_eq 8 23 (unat a) (unat b)"


definition f32_zero :: float32 where "f32_zero = 0"
definition f32_one :: float32 where "f32_one = 0x3F800000"
definition f32_two :: float32 where "f32_two = 0x40000000"

definition f64_sub :: "float64 \<Rightarrow> float64 \<Rightarrow> float64" where
  "f64_sub a b = word_of_nat (fp_sub 11 52 (unat a) (unat b))"

definition f64_le :: "float64 \<Rightarrow> float64 \<Rightarrow> bool" where
  "f64_le a b = fp_le 11 52 (unat a) (unat b)"

definition f64_finite :: "float64 \<Rightarrow> bool" where
  "f64_finite a = is_finite 11 52 (unat a)"

definition f64_zero :: float64 where "f64_zero = 0"


section \<open>The vectorised kernels\<close>

text \<open>
  A NumPy array of \<^verbatim>\<open>float32\<close> in one dimension is the list of its elements.
  \<^verbatim>\<open>@vectorize(['float32(float32, float32)'])\<close> turns a scalar function into a
  universal function: applied to two arrays of one length it maps the scalar function
  over the pairs of elements and returns a new array; an array of one element is
  broadcast against the other; any other two lengths raise \<^verbatim>\<open>ValueError\<close>.
\<close>

datatype error = MemoryError | ValueError | DanglingRef

definition vectorize ::
  "(float32 \<Rightarrow> float32 \<Rightarrow> float32) \<Rightarrow> float32 list \<Rightarrow> float32 list \<Rightarrow> error + float32 list"
where
  "vectorize f a b =
     (if length a = length b then Inr (map2 f a b)
      else if length a = 1 then Inr (map (f (hd a)) b)
      else if length b = 1 then Inr (map (\<lambda>x. f x (hd b)) a)
      else Inl ValueError)"

definition vectorAdd :: "float32 list \<Rightarrow> float32 list \<Rightarrow> error + float32 list" where
  "vectorAdd = vectorize (\<lambda>a b. f32_add a b)"

definition vectorMultiply :: "float32 list \<Rightarrow> float32 list \<Rightarrow> error + float32 list" where
  "vectorMultiply = vectorize (\<lambda>a b. f32_mul a b)"

section \<open>The benchmark and its effects\<close>

text \<open>
  \<^verbatim>\<open>main\<close> allocates arrays, reads the timer, calls the kernels and prints. The model
  threads a world through these steps. Arrays live in a heap and are named by references,
  so that rebinding a name and the identity of an array can be told apart. The trace
  lists the effects in program order.

  What the libraries supply is a parameter: the readings of \<^verbatim>\<open>timeit.default_timer\<close>,
  how many \<^verbatim>\<open>float32\<close> elements the allocator can hold at once, and the renderings
  \<^verbatim>\<open>str(array)\<close> and \<^verbatim>\<open>"%f" % seconds\<close>.
\<close>

type_synonym ref = nat

datatype kernel = VectorAdd | VectorMultiply

datatype event =
    Alloc ref nat
  | Free ref
  | TimerRead nat
  | Call kernel ref ref ref
  | Print string

record platform =
  timer_reading :: "nat \<Rightarrow> float64"
  capacity :: nat
  str_ndarray :: "float32 list \<Rightarrow> string"
  fmt_f :: "float64 \<Rightarrow> string"

record world =
  heap :: "ref \<Rightarrow> float32 list option"
  next_ref :: ref
  in_use :: nat
  timer_calls :: nat
  trace :: "event list"

definition boot :: world where
  "boot = \<lparr>heap = (\<lambda>r. None), next_ref = 0, in_use = 0, timer_calls = 0, trace = []\<rparr>"

definition bindE ::
  "(world \<Rightarrow> error + ('a \<times> world)) \<Rightarrow> ('a \<Rightarrow> world \<Rightarrow> error + ('b \<times> world))
     \<Rightarrow> world \<Rightarrow> error + ('b \<times> world)"
where
  "bindE m f w = (case m w of Inl e \<Rightarrow> Inl e | Inr (a, w') \<Rightarrow> f a w')"

definition emit :: "event \<Rightarrow> world \<Rightarrow> world" where
  "emit ev w = w\<lparr>trace := trace w @ [ev]\<rparr>"

text \<open>A new array with the given elements, at a reference never used before.\<close>

definition np_alloc :: "platform \<Rightarrow> float32 list \<Rightarrow> world \<Rightarrow> error + (ref \<times> world)" where
  "np_alloc p xs w =
     (if capacity p < in_use w + length xs then Inl MemoryError
      else Inr (next_ref w,
                emit (Alloc (next_ref w) (length xs))
                  (w\<lparr>heap := (heap w)(next_ref w \<mapsto> xs),
                     next_ref := Suc (next_ref w),
                     in_use := in_use w + length xs\<rparr>)))"

definition np_ones :: "platform \<Rightarrow> nat \<Rightarrow> world \<Rightarrow> error + (ref \<times> world)" where
  "np_ones p n = np_alloc p (replicate n f32_one)"

definition np_zeros :: "platform \<Rightarrow> nat \<Rightarrow> world \<Rightarrow> error + (ref \<times> world)" where
  "np_zeros p n = np_alloc p (replicate n f32_zero)"

text \<open>
  An array whose last name is rebound, or whose names go out of scope, is freed at once
  (CPython counts references).
\<close>

definition release :: "ref \<Rightarrow> world \<Rightarrow> error + (unit \<times> world)" where
  "release r w =
     (case heap w r of
        None \<Rightarrow> Inl DanglingRef
      | Some xs \<Rightarrow>
          Inr ((), emit (Free r) (w\<lparr>heap := (heap w)(r := None), in_use := in_use w - length xs\<rparr>)))"

definition timer :: "platform \<Rightarrow> world \<Rightarrow> error + (float64 \<times> world)" where
  "timer p w =
     Inr (timer_reading p (timer_calls w),
          emit (TimerRead (timer_calls w)) (w\<lparr>timer_calls := Suc (timer_calls w)\<rparr>))"

definition print :: "string \<Rightarrow> world \<Rightarrow> error + (unit \<times> world)" where
  "print s w = Inr ((), emit (Print s) w)"

fun printed :: "event list \<Rightarrow> string list" where
  "printed [] = []"
| "printed (Print s # evs) = s # printed evs"
| "printed (ev # evs) = printed evs"

definition kernel_fun :: "kernel \<Rightarrow> float32 list \<Rightarrow> float32 list \<Rightarrow> error + float32 list" where
  "kernel_fun k = (case k of VectorAdd \<Rightarrow> vectorAdd | VectorMultiply \<Rightarrow> vectorMultiply)"

text \<open>
  Calling a kernel on two arrays of the heap: the result is a new array, as the call
  passes no \<^verbatim>\<open>out=\<close> argument.
\<close>

definition call :: "platform \<Rightarrow> kernel \<Rightarrow> ref \<Rightarrow> ref \<Rightarrow> world \<Rightarrow> error + (ref \<times> world)" where
  "call p k a b w =
     (case heap w a of
        None \<Rightarrow> Inl DanglingRef
      | Some xs \<Rightarrow>
         (case heap w b of
            None \<Rightarrow> Inl DanglingRef
          | Some ys \<Rightarrow>
             (case kernel_fun k xs ys of
                Inl e \<Rightarrow> Inl e
              | Inr zs \<Rightarrow>
                 (case np_alloc p zs w of
                    Inl e \<Rightarrow> Inl e
                  | Inr (c, w') \<Rightarrow> Inr (c, emit (Call k a b c) w')))))"

text \<open>Reading a slice of an array for printing: \<^verbatim>\<open>C[:5]\<close> and \<^verbatim>\<open>C[-5:]\<close>.\<close>

definition first5 :: "ref \<Rightarrow> world \<Rightarrow> error + (float32 list \<times> world)" where
  "first5 r w = (case heap w r of None \<Rightarrow> Inl DanglingRef | Some xs \<Rightarrow> Inr (take 5 xs, w))"

definition last5 :: "ref \<Rightarrow> world \<Rightarrow> error + (float32 list \<times> world)" where
  "last5 r w =
     (case heap w r of None \<Rightarrow> Inl DanglingRef
      | Some xs \<Rightarrow> Inr (drop (length xs - 5) xs, w))"

text \<open>
  Lines 16 to 27 of \<^verbatim>\<open>research/test_gpus.py\<close>: the add trial. It returns the arrays
  bound to \<^verbatim>\<open>A\<close>, \<^verbatim>\<open>B\<close> and \<^verbatim>\<open>C\<close> and \<^verbatim>\<open>vector_add_time\<close>.
\<close>

definition add_trial ::
  "platform \<Rightarrow> nat \<Rightarrow> world \<Rightarrow> error + ((ref \<times> ref \<times> ref \<times> float64) \<times> world)"
where
  "add_trial p N =
     bindE (np_ones p N) (\<lambda>A.
     bindE (np_ones p N) (\<lambda>B.
     bindE (np_zeros p N) (\<lambda>C0.
     bindE (timer p) (\<lambda>start.
     bindE (call p VectorAdd A B) (\<lambda>C.
     bindE (release C0) (\<lambda>_.
     bindE (timer p) (\<lambda>stop.
     (let vector_add_time = f64_sub stop start in
     bindE (first5 C) (\<lambda>s1.
     bindE (print (''C[:5] = '' @ str_ndarray p s1)) (\<lambda>_.
     bindE (last5 C) (\<lambda>s2.
     bindE (print (''C[-5:] = '' @ str_ndarray p s2)) (\<lambda>_.
     bindE (print (''VectorAdd took '' @ fmt_f p vector_add_time @ '' seconds'')) (\<lambda>_.
     (\<lambda>w. Inr ((A, B, C, vector_add_time), w)))))))))))))))"

text \<open>Lines 29 to 40: the multiply trial, which starts its timer first.\<close>

definition multiply_trial ::
  "platform \<Rightarrow> nat \<Rightarrow> world \<Rightarrow> error + ((ref \<times> ref \<times> ref \<times> float64) \<times> world)"
where
  "multiply_trial p N =
     bindE (timer p) (\<lambda>start.
     bindE (np_ones p N) (\<lambda>E.
     bindE (np_ones p N) (\<lambda>F.
     bindE (np_zeros p N) (\<lambda>G0.
     bindE (call p VectorMultiply E F) (\<lambda>G.
     bindE (release G0) (\<lambda>_.
     bindE (timer p) (\<lambda>stop.
     (let vector_multiply_time = f64_sub stop start in
     bindE (first5 G) (\<lambda>s1.
     bindE (print (''G[:5] = '' @ str_ndarray p s1)) (\<lambda>_.
     bindE (last5 G) (\<lambda>s2.
     bindE (print (''G[-5:] = '' @ str_ndarray p s2)) (\<lambda>_.
     bindE (print (''VectorMultiply took '' @ fmt_f p vector_multiply_time @ '' seconds'')) (\<lambda>_.
     (\<lambda>w. Inr ((E, F, G, vector_multiply_time), w)))))))))))))))"

text \<open>
  \<^verbatim>\<open>main\<close> with its constant \<^verbatim>\<open>N\<close> as a parameter: the two trials in sequence, then
  the six arrays go out of scope.
\<close>

definition main_N :: "platform \<Rightarrow> nat \<Rightarrow> world \<Rightarrow> error + (unit \<times> world)" where
  "main_N p N =
     bindE (add_trial p N) (\<lambda>(A, B, C, vector_add_time).
     bindE (multiply_trial p N) (\<lambda>(E, F, G, vector_multiply_time).
     bindE (release A) (\<lambda>_.
     bindE (release B) (\<lambda>_.
     bindE (release C) (\<lambda>_.
     bindE (release E) (\<lambda>_.
     bindE (release F) (\<lambda>_.
     release G)))))))"

definition main :: "platform \<Rightarrow> world \<Rightarrow> error + (unit \<times> world)" where
  "main p = main_N p 32000000"

text \<open>
  Lines 42 and 43: run as a script, the module calls \<^verbatim>\<open>main()\<close> whatever the command
  line holds.
\<close>

definition script :: "platform \<Rightarrow> string list \<Rightarrow> world \<Rightarrow> error + (unit \<times> world)" where
  "script p argv = main p"


text \<open>
  A world is well formed when no array lives at a reference that is still to be handed
  out. \<open>boot\<close> is, and every step keeps it so.
\<close>

definition wf_world :: "world \<Rightarrow> bool" where
  "wf_world w = (\<forall>r. next_ref w \<le> r \<longrightarrow> heap w r = None)"

text \<open>
  A wall clock that never runs backwards: every reading is a finite double with a clear
  sign bit, as \<^verbatim>\<open>time.perf_counter\<close> returns, and no reading is below the one before.
\<close>

definition f64_sign :: "float64 \<Rightarrow> bool" where
  "f64_sign a = sign_bit 11 52 (unat a)"

definition monotone_timer :: "platform \<Rightarrow> bool" where
  "monotone_timer p =
     (\<forall>k. f64_finite (timer_reading p k) \<and> \<not> f64_sign (timer_reading p k) \<and>
          f64_le (timer_reading p k) (timer_reading p (Suc k)))"

text \<open>
  A platform to run the model on: the timer reads 1.0, 2.5 and then 3.0 seconds, the
  allocator holds the seven arrays of \<^verbatim>\<open>main\<close>, and the renderings only mark the places
  of the elements and of the duration.
\<close>

definition demo_clock :: "nat \<Rightarrow> float64" where
  "demo_clock k =
     (if k = 0 then 0x3FF0000000000000 else if k = 1 then 0x4004000000000000
      else 0x4008000000000000)"

definition demo_platform :: platform where
  "demo_platform =
     \<lparr>timer_reading = demo_clock, capacity = 224000000,
      str_ndarray = (\<lambda>xs. ''['' @ replicate (length xs) CHR ''#'' @ '']''),
      fmt_f = (\<lambda>t. ''%f'')\<rparr>"


text \<open>A world with two arrays of two elements, to call a kernel in.\<close>

definition demo_world :: world where
  "demo_world =
     \<lparr>heap = (\<lambda>r. None)(0 \<mapsto> [f32_one, f32_two], Suc 0 \<mapsto> [f32_two, f32_zero]),
      next_ref = 2, in_use = 4, timer_calls = 0, trace = [Alloc 0 2, Alloc (Suc 0) 2]\<rparr>"

section \<open>Evaluating the kernels on 1.0\<close>

lemma bitlen_2p24: "bitlen 16777216 = 25"
  by (simp add: bitlen.simps)

lemma bitlen_2p46: "bitlen 70368744177664 = 47"
  by (simp add: bitlen.simps)

lemma rne_2p24: "rne 16777216 (Suc 0) = 8388608"
  by (simp add: rne_def Let_def)

lemma rne_2p46: "rne 70368744177664 23 = 8388608"
  by (simp add: rne_def Let_def)

lemma round_pack_two: "round_pack 8 23 False 16777216 (- 23) = 1073741824"
  by (simp add: round_pack_def Let_def bitlen_2p24 bias_def sign_mask_def inf_body_def rne_2p24)

lemma round_pack_one: "round_pack 8 23 False 70368744177664 (- 46) = 1065353216"
  by (simp add: round_pack_def Let_def bitlen_2p46 bias_def sign_mask_def inf_body_def rne_2p46)

lemma one_fields:
  "expo 8 23 1065353216 = 127" "frac 23 1065353216 = 0" "\<not> sign_bit 8 23 1065353216"
  by (simp_all add: expo_def frac_def sign_bit_def)

lemma one_decoded:
  "\<not> is_nan 8 23 1065353216" "\<not> is_inf 8 23 1065353216"
  "mant 8 23 1065353216 = 8388608" "scale 8 23 1065353216 = - 23"
  "smant 8 23 1065353216 = 8388608"
  by (simp_all add: is_nan_def is_inf_def mant_def scale_def smant_def bias_def one_fields)

lemma fp_add_one_one: "fp_add 8 23 1065353216 1065353216 = 1073741824"
  by (simp add: fp_add_def Let_def one_decoded round_pack_two)

lemma fp_mul_one_one: "fp_mul 8 23 1065353216 1065353216 = 1065353216"
  by (simp add: fp_mul_def Let_def one_decoded round_pack_one)

lemma f32_add_one_one: "f32_add f32_one f32_one = f32_two"
  by (simp add: f32_add_def f32_one_def f32_two_def fp_add_one_one)

lemma f32_mul_one_one: "f32_mul f32_one f32_one = f32_one"
  by (simp add: f32_mul_def f32_one_def fp_mul_one_one)

text \<open>A value that is no NaN compares equal to itself.\<close>

lemma nan_free_eq: "\<not> is_nan ew fw x \<Longrightarrow> fp_eq ew fw x x"
  by (simp add: fp_eq_def fp_le_def)

lemma two_not_nan: "\<not> is_nan 8 23 1073741824"
  by (simp add: is_nan_def expo_def)

lemma f32_eq_two: "f32_eq f32_two f32_two"
  by (simp add: f32_eq_def f32_two_def nan_free_eq two_not_nan)

lemma f32_eq_one: "f32_eq f32_one f32_one"
  by (simp add: f32_eq_def f32_one_def nan_free_eq one_decoded)

section \<open>The kernels on arrays\<close>

lemma map2_replicate: "map2 f (replicate n a) (replicate n b) = replicate n (f a b)"
  by simp

lemma vectorize_same_length:
  "length a = length b \<Longrightarrow> vectorize f a b = Inr (map2 f a b)"
  by (simp add: vectorize_def)

lemma vectorAdd_ones:
  "vectorAdd (replicate N f32_one) (replicate N f32_one) = Inr (replicate N f32_two)"
  by (simp add: vectorAdd_def vectorize_same_length map2_replicate f32_add_one_one)

lemma vectorMultiply_ones:
  "vectorMultiply (replicate N f32_one) (replicate N f32_one) = Inr (replicate N f32_one)"
  by (simp add: vectorMultiply_def vectorize_same_length map2_replicate f32_mul_one_one)


section \<open>What a trial does to the world\<close>

lemmas prims = bindE_def np_ones_def np_zeros_def np_alloc_def release_def timer_def print_def
  call_def first5_def last5_def emit_def kernel_fun_def

text \<open>With room for four more arrays the add trial runs to its end, and this is the world it leaves.\<close>

lemma add_trial_ok:
  assumes "in_use w + 4 * N \<le> capacity p"
  shows "add_trial p N w =
    Inr ((next_ref w, Suc (next_ref w), Suc (Suc (Suc (next_ref w))),
          f64_sub (timer_reading p (Suc (timer_calls w))) (timer_reading p (timer_calls w))),
         w\<lparr>heap := (heap w)(next_ref w \<mapsto> replicate N f32_one,
                  Suc (next_ref w) \<mapsto> replicate N f32_one,
                  Suc (Suc (next_ref w)) := None,
                  Suc (Suc (Suc (next_ref w))) \<mapsto> replicate N f32_two),
           next_ref := Suc (Suc (Suc (Suc (next_ref w)))),
           in_use := in_use w + 3 * N,
           timer_calls := Suc (Suc (timer_calls w)),
           trace := trace w @
             [Alloc (next_ref w) N, Alloc (Suc (next_ref w)) N,
              Alloc (Suc (Suc (next_ref w))) N,
              TimerRead (timer_calls w),
              Alloc (Suc (Suc (Suc (next_ref w)))) N,
              Call VectorAdd (next_ref w) (Suc (next_ref w)) (Suc (Suc (Suc (next_ref w)))),
              Free (Suc (Suc (next_ref w))),
              TimerRead (Suc (timer_calls w)),
              Print (''C[:5] = '' @ str_ndarray p (take 5 (replicate N f32_two))),
              Print (''C[-5:] = '' @ str_ndarray p (drop (N - 5) (replicate N f32_two))),
              Print (''VectorAdd took '' @
                     fmt_f p (f64_sub (timer_reading p (Suc (timer_calls w)))
                                (timer_reading p (timer_calls w))) @ '' seconds'')]\<rparr>)"
  using assms
  by (simp add: add_trial_def prims vectorAdd_ones Let_def fun_upd_twist)


text \<open>The multiply trial likewise; its first effect is the timer reading.\<close>

lemma multiply_trial_ok:
  assumes "in_use w + 4 * N \<le> capacity p"
  shows "multiply_trial p N w =
    Inr ((next_ref w, Suc (next_ref w), Suc (Suc (Suc (next_ref w))),
          f64_sub (timer_reading p (Suc (timer_calls w))) (timer_reading p (timer_calls w))),
         w\<lparr>heap := (heap w)(next_ref w \<mapsto> replicate N f32_one,
                  Suc (next_ref w) \<mapsto> replicate N f32_one,
                  Suc (Suc (next_ref w)) := None,
                  Suc (Suc (Suc (next_ref w))) \<mapsto> replicate N f32_one),
           next_ref := Suc (Suc (Suc (Suc (next_ref w)))),
           in_use := in_use w + 3 * N,
           timer_calls := Suc (Suc (timer_calls w)),
           trace := trace w @
             [TimerRead (timer_calls w),
              Alloc (next_ref w) N, Alloc (Suc (next_ref w)) N,
              Alloc (Suc (Suc (next_ref w))) N,
              Alloc (Suc (Suc (Suc (next_ref w)))) N,
              Call VectorMultiply (next_ref w) (Suc (next_ref w)) (Suc (Suc (Suc (next_ref w)))),
              Free (Suc (Suc (next_ref w))),
              TimerRead (Suc (timer_calls w)),
              Print (''G[:5] = '' @ str_ndarray p (take 5 (replicate N f32_one))),
              Print (''G[-5:] = '' @ str_ndarray p (drop (N - 5) (replicate N f32_one))),
              Print (''VectorMultiply took '' @
                     fmt_f p (f64_sub (timer_reading p (Suc (timer_calls w)))
                                (timer_reading p (timer_calls w))) @ '' seconds'')]\<rparr>)"
  using assms
  by (simp add: multiply_trial_def prims vectorMultiply_ones Let_def fun_upd_twist)

text \<open>Short of that room a trial fails with \<^verbatim>\<open>MemoryError\<close>.\<close>

lemma add_trial_fails:
  "\<not> in_use w + 4 * N \<le> capacity p \<Longrightarrow> add_trial p N w = Inl MemoryError"
  by (auto simp: add_trial_def prims vectorAdd_ones Let_def split: if_splits)

lemma multiply_trial_fails:
  "\<not> in_use w + 4 * N \<le> capacity p \<Longrightarrow> multiply_trial p N w = Inl MemoryError"
  by (auto simp: multiply_trial_def prims vectorMultiply_ones Let_def split: if_splits)

lemma printed_append: "printed (xs @ ys) = printed xs @ printed ys"
  by (induction xs rule: printed.induct) simp_all

text \<open>With room for seven arrays \<^verbatim>\<open>main\<close> runs to its end: this is its whole trace.\<close>

lemma main_N_ok:
  assumes "in_use w + 7 * N \<le> capacity p"
  shows "main_N p N w =
    Inr ((), w\<lparr>heap := (\<lambda>r. if next_ref w \<le> r \<and> r < next_ref w + 8 then None else heap w r),
               next_ref := next_ref w + 8,
               in_use := in_use w,
               timer_calls := timer_calls w + 4,
               trace := trace w @
             [Alloc (next_ref w) N, Alloc (next_ref w + 1) N, Alloc (next_ref w + 2) N,
              TimerRead (timer_calls w),
              Alloc (next_ref w + 3) N,
              Call VectorAdd (next_ref w) (next_ref w + 1) (next_ref w + 3),
              Free (next_ref w + 2),
              TimerRead (timer_calls w + 1),
              Print (''C[:5] = '' @ str_ndarray p (take 5 (replicate N f32_two))),
              Print (''C[-5:] = '' @ str_ndarray p (drop (N - 5) (replicate N f32_two))),
              Print (''VectorAdd took '' @
                     fmt_f p (f64_sub (timer_reading p (timer_calls w + 1))
                                (timer_reading p (timer_calls w))) @ '' seconds''),
              TimerRead (timer_calls w + 2),
              Alloc (next_ref w + 4) N, Alloc (next_ref w + 5) N, Alloc (next_ref w + 6) N,
              Alloc (next_ref w + 7) N,
              Call VectorMultiply (next_ref w + 4) (next_ref w + 5) (next_ref w + 7),
              Free (next_ref w + 6),
              TimerRead (timer_calls w + 3),
              Print (''G[:5] = '' @ str_ndarray p (take 5 (replicate N f32_one))),
              Print (''G[-5:] = '' @ str_ndarray p (drop (N - 5) (replicate N f32_one))),
              Print (''VectorMultiply took '' @
                     fmt_f p (f64_sub (timer_reading p (timer_calls w + 3))
                                (timer_reading p (timer_calls w + 2))) @ '' seconds''),
              Free (next_ref w), Free (next_ref w + 1), Free (next_ref w + 3),
              Free (next_ref w + 4), Free (next_ref w + 5), Free (next_ref w + 7)]\<rparr>)"
  using assms
  apply (simp add: main_N_def bindE_def add_trial_ok multiply_trial_ok release_def emit_def)
  apply (rule world.equality)
  apply (auto simp: fun_eq_iff numeral_eq_Suc)
  done


text \<open>Short of that room \<^verbatim>\<open>main\<close> fails with \<^verbatim>\<open>MemoryError\<close>, and with nothing else.\<close>

lemma main_N_fails:
  "\<not> in_use w + 7 * N \<le> capacity p \<Longrightarrow> main_N p N w = Inl MemoryError"
proof (cases "in_use w + 4 * N \<le> capacity p")
  case True
  assume "\<not> in_use w + 7 * N \<le> capacity p"
  with True show ?thesis
    by (simp add: main_N_def bindE_def add_trial_ok multiply_trial_fails)
next
  case False
  then show ?thesis
    by (simp add: main_N_def bindE_def add_trial_fails)
qed

lemma main_N_error: "main_N p N w = Inl e \<Longrightarrow> e = MemoryError"
  by (cases "in_use w + 7 * N \<le> capacity p") (simp_all add: main_N_ok main_N_fails)

text \<open>A kernel call on two live arrays of one length.\<close>

lemma call_ok:
  assumes "heap w a = Some xs" and "heap w b = Some ys" and "length xs = length ys"
    and "in_use w + length xs \<le> capacity p"
  shows "call p k a b w =
     Inr (next_ref w,
          w\<lparr>heap := (heap w)(next_ref w \<mapsto>
                      map2 (case k of VectorAdd \<Rightarrow> f32_add | VectorMultiply \<Rightarrow> f32_mul) xs ys),
            next_ref := Suc (next_ref w),
            in_use := in_use w + length xs,
            trace := trace w @ [Alloc (next_ref w) (length xs), Call k a b (next_ref w)]\<rparr>)"
  using assms
  by (cases k)
     (simp_all add: call_def kernel_fun_def vectorAdd_def vectorMultiply_def vectorize_same_length
        np_alloc_def emit_def)

text \<open>The call puts its result at a new reference and changes no other array.\<close>

lemma kernel_call_frame:
  assumes "wf_world w" and "heap w a = Some xs" and "heap w b = Some ys"
    and "length xs = length ys" and "in_use w + length xs \<le> capacity p"
  shows "\<exists>c w'. call p k a b w = Inr (c, w') \<and> heap w c = None \<and> heap w' c \<noteq> None \<and>
           heap w' a = Some xs \<and> heap w' b = Some ys \<and>
           (\<forall>r. r \<noteq> c \<longrightarrow> heap w' r = heap w r) \<and> wf_world w'"
  using assms by (auto simp: call_ok wf_world_def)

subsection \<open>The demonstration platform\<close>

lemma boot_room: "in_use boot + 4 * 3 \<le> capacity demo_platform"
  by (simp add: boot_def demo_platform_def)

lemma wf_boot: "wf_world boot"
  by (simp add: wf_world_def boot_def)

lemma after_add_trial:
  "\<exists>res w1. add_trial demo_platform 3 boot = Inr (res, w1) \<and> in_use w1 = 9 \<and> timer_calls w1 = 2"
  using add_trial_ok [OF boot_room] by (simp add: boot_def)

lemma boot_room_main: "in_use boot + 7 * 32000000 \<le> capacity demo_platform"
  by (simp add: boot_def demo_platform_def)

lemma boot_room_one: "in_use boot + 4 \<le> capacity demo_platform"
  by (simp add: boot_def demo_platform_def)

section \<open>A difference of ordered clock readings is finite\<close>

text \<open>
  The bit length brackets a number between two powers of two, and rounding to nearest
  never passes an integer that bounds the exact quotient.
\<close>

lemma bitlen_upper: "m < 2 ^ bitlen m"
proof (induction m rule: bitlen.induct)
  case (1 n)
  show ?case
  proof (cases "n = 0")
    case True
    then show ?thesis by (simp add: bitlen.simps)
  next
    case False
    with 1 have "n div 2 < 2 ^ bitlen (n div 2)" by simp
    then have "n < 2 * 2 ^ bitlen (n div 2)" by linarith
    with False show ?thesis by (simp add: bitlen.simps [of n])
  qed
qed

lemma bitlen_lower: "0 < m \<Longrightarrow> 2 ^ (bitlen m - 1) \<le> m"
proof (induction m rule: bitlen.induct)
  case (1 n)
  then have n: "n \<noteq> 0" by simp
  show ?case
  proof (cases "n div 2 = 0")
    case True
    with n show ?thesis by (simp add: bitlen.simps [of n] bitlen.simps [of 0])
  next
    case False
    with 1 n have "2 ^ (bitlen (n div 2) - 1) \<le> n div 2" by simp
    moreover have "0 < bitlen (n div 2)" using False by (simp add: bitlen.simps [of "n div 2"])
    ultimately have "2 ^ bitlen (n div 2) \<le> 2 * (n div 2)"
      by (cases "bitlen (n div 2)") simp_all
    then have "2 ^ bitlen (n div 2) \<le> n" by linarith
    with n show ?thesis by (simp add: bitlen.simps [of n])
  qed
qed

lemma rne_le: 
  assumes "m \<le> M * 2 ^ k"
  shows "rne m k \<le> M"
proof -
  have d: "m div 2 ^ k \<le> M"
    using assms by (metis div_le_mono nonzero_mult_div_cancel_right power_not_zero zero_neq_numeral)
  show ?thesis
  proof (cases "m div 2 ^ k = M")
    case True
    have "m = (m div 2 ^ k) * 2 ^ k + m mod 2 ^ k" by (rule div_mult_mod_eq [symmetric])
    with True assms have "m mod 2 ^ k = 0" by (metis add_le_same_cancel1 le_zero_eq)
    with True show ?thesis by (simp add: rne_def Let_def)
  next
    case False
    with d have "m div 2 ^ k < M" by simp
    then show ?thesis by (simp add: rne_def Let_def)
  qed
qed


text \<open>
  Rounding \<open>m * 2 ^ e\<close> stays below infinity when the exact value is at most a finite
  \<open>my * 2 ^ sy\<close>: the last place \<open>q\<close> of the result is at most \<open>sy\<close>, and at \<open>q = sy\<close>
  the rounded significand is at most \<open>my\<close>.
\<close>

lemma round_pack_below_inf:
  fixes e sy :: int
  assumes m: "0 < m" and e: "1 - int (bias ew) - int fw \<le> e" and es: "e \<le> sy"
    and sy: "sy - (1 - int (bias ew) - int fw) + 3 \<le> 2 ^ ew"
    and my: "my < 2 ^ (fw + 1)" and le: "m \<le> my * 2 ^ nat (sy - e)"
  shows "round_pack ew fw False m e < inf_body ew fw"
proof -
  define qmin where "qmin = 1 - int (bias ew) - int fw"
  define n where "n = bitlen m"
  define q where "q = max (e + int n - int (fw + 1)) qmin"
  define m' where "m' = (if q \<le> e then m * 2 ^ nat (e - q) else rne m (nat (q - e)))"
  define body where
    "body = (if m' < 2 ^ fw then m' else (nat (q - qmin) + 1) * 2 ^ fw + (m' - 2 ^ fw))"
  define P :: nat where "P = 2 ^ fw"
  define E :: nat where "E = 2 ^ ew"
  have rp: "round_pack ew fw False m e = min body (inf_body ew fw)"
    by (simp add: round_pack_def Let_def sign_mask_def body_def m'_def q_def n_def qmin_def)
  have n1: "m < 2 ^ n" unfolding n_def by (rule bitlen_upper)
  have n2: "2 ^ (n - 1) \<le> m" unfolding n_def using m by (rule bitlen_lower)
  have n0: "0 < n" using m n1 by (cases n) simp_all
  have qmin_q: "qmin \<le> q" by (simp add: q_def)
  have e_qmin: "qmin \<le> e" using e by (simp add: qmin_def)
  have K: "nat (sy - qmin) + 3 \<le> E"
  proof -
    have "int (nat (sy - qmin) + 3) \<le> int E"
      using sy es e_qmin by (simp add: qmin_def E_def)
    then show ?thesis by linarith
  qed
  have "2 ^ (n - 1) < (2::nat) ^ (fw + 1 + nat (sy - e))"
  proof -
    note n2
    also note le
    also have "my * 2 ^ nat (sy - e) < 2 ^ (fw + 1) * 2 ^ nat (sy - e)"
      using my by simp
    also have "\<dots> = 2 ^ (fw + 1 + nat (sy - e))" by (simp add: power_add)
    finally show ?thesis .
  qed
  then have "n - 1 < fw + 1 + nat (sy - e)"
    by (rule power_less_imp_less_exp [rotated]) simp
  then have n_le: "int n \<le> int fw + 1 + (sy - e)" using es by linarith
  have q_sy: "q \<le> sy" using n_le es e_qmin by (simp add: q_def)
  have m'_le: "m' \<le> 2 * P"
  proof (cases "q \<le> e")
    case True
    have "e + int n - int (fw + 1) \<le> q" by (simp add: q_def)
    then have k: "n + nat (e - q) \<le> fw + 1" using True by linarith
    have "m * 2 ^ nat (e - q) \<le> 2 ^ n * 2 ^ nat (e - q)" using n1 by simp
    also have "\<dots> = 2 ^ (n + nat (e - q))" by (simp add: power_add)
    also have "\<dots> \<le> 2 ^ (fw + 1)" using k by (rule power_increasing) simp
    finally have "m * 2 ^ nat (e - q) \<le> 2 ^ (fw + 1)" .
    with True show ?thesis by (simp add: m'_def P_def)
  next
    case False
    have "e + int n - int (fw + 1) \<le> q" by (simp add: q_def)
    then have k: "n \<le> fw + 1 + nat (q - e)" using False by linarith
    have "m \<le> 2 ^ n" using n1 by simp
    also have "\<dots> \<le> 2 ^ (fw + 1 + nat (q - e))" using k by (rule power_increasing) simp
    also have "\<dots> = 2 ^ (fw + 1) * 2 ^ nat (q - e)" by (simp add: power_add)
    finally have "m \<le> 2 ^ (fw + 1) * 2 ^ nat (q - e)" .
    then have "rne m (nat (q - e)) \<le> 2 ^ (fw + 1)" by (rule rne_le)
    with False show ?thesis by (simp add: m'_def P_def)
  qed
  have m'_top: "m' \<le> my" if "q = sy"
  proof (cases "q \<le> e")
    case True
    with that es have "e = sy" by simp
    with that le show ?thesis by (simp add: m'_def)
  next
    case False
    from le that have "rne m (nat (q - e)) \<le> my" by (simp add: rne_le)
    with False show ?thesis by (simp add: m'_def)
  qed
  have P0: "0 < P" by (simp add: P_def)
  have body_lt: "body < (E - 1) * P"
  proof (cases "m' < P")
    case True
    then have "body < 1 * P" by (simp add: body_def P_def)
    also have "\<dots> \<le> (E - 1) * P" by (rule mult_le_mono1) (use K in linarith)
    finally show ?thesis .
  next
    case False
    then have b: "body = (nat (q - qmin) + 1) * P + (m' - P)"
      by (simp add: body_def P_def)
    show ?thesis
    proof (cases "q = sy")
      case True
      with m'_top my have "m' < 2 * P" by (simp add: P_def)
      with False have "body < (nat (sy - qmin) + 1) * P + P"
        by (simp add: b True)
      also have "\<dots> = (nat (sy - qmin) + 2) * P" by (simp add: algebra_simps)
      also have "\<dots> \<le> (E - 1) * P" by (rule mult_le_mono1) (use K in linarith)
      finally show ?thesis .
    next
      case False
      with q_sy qmin_q have A: "nat (q - qmin) + 1 \<le> nat (sy - qmin)" by linarith
      from m'_le have "body \<le> (nat (q - qmin) + 1) * P + P" by (simp add: b)
      also have "\<dots> = (nat (q - qmin) + 2) * P" by (simp add: algebra_simps)
      also have "\<dots> \<le> (nat (sy - qmin) + 1) * P" by (rule mult_le_mono1) (use A in linarith)
      also have "\<dots> < (E - 1) * P"
      proof (rule mult_less_mono1)
        show "nat (sy - qmin) + 1 < E - 1" using K by linarith
        show "0 < P" by (rule P0)
      qed
      finally show ?thesis .
    qed
  qed
  then show ?thesis by (simp add: rp inf_body_def E_def P_def)
qed


text \<open>A pattern below that of infinity is a finite number with a clear sign bit.\<close>

lemma below_inf_fields:
  assumes "x < inf_body ew fw"
  shows "\<not> sign_bit ew fw x" and "expo ew fw x = x div 2 ^ fw"
    and "expo ew fw x < 2 ^ ew - 1"
proof -
  from assms have d: "x div 2 ^ fw < 2 ^ ew - 1"
    unfolding inf_body_def by (rule less_mult_imp_div_less)
  then have "x div 2 ^ fw < 2 ^ ew" by simp
  then show e: "expo ew fw x = x div 2 ^ fw" by (simp add: expo_def)
  from d show "expo ew fw x < 2 ^ ew - 1" by (simp add: e)
  have "x < 2 ^ ew * 2 ^ fw"
  proof -
    note assms
    also have "inf_body ew fw \<le> 2 ^ ew * 2 ^ fw"
      unfolding inf_body_def by (rule mult_le_mono1) simp
    finally show ?thesis .
  qed
  then have "x div 2 ^ (ew + fw) = 0" by (simp add: power_add)
  then show "\<not> sign_bit ew fw x" by (simp add: sign_bit_def)
qed

lemma neg_fields:
  assumes "x < inf_body ew fw"
  shows "fp_neg ew fw x = x + 2 ^ (ew + fw)"
    and "sign_bit ew fw (x + 2 ^ (ew + fw))"
    and "expo ew fw (x + 2 ^ (ew + fw)) = expo ew fw x"
    and "frac fw (x + 2 ^ (ew + fw)) = frac fw x"
proof -
  note f = below_inf_fields [OF assms]
  show "fp_neg ew fw x = x + 2 ^ (ew + fw)" using f(1) by (simp add: fp_neg_def)
  have "x < 2 ^ ew * 2 ^ fw"
  proof -
    note assms
    also have "inf_body ew fw \<le> 2 ^ ew * 2 ^ fw"
      unfolding inf_body_def by (rule mult_le_mono1) simp
    finally show ?thesis .
  qed
  then have "x div 2 ^ (ew + fw) = 0" by (simp add: power_add)
  moreover have "(x + 2 ^ (ew + fw)) div 2 ^ (ew + fw) = x div 2 ^ (ew + fw) + 1"
    by (rule div_add_self2) simp
  ultimately have "(x + 2 ^ (ew + fw)) div 2 ^ (ew + fw) = 1" by simp
  then show "sign_bit ew fw (x + 2 ^ (ew + fw))" by (simp add: sign_bit_def)
  have s: "x + 2 ^ (ew + fw) = x + 2 ^ ew * 2 ^ fw" by (simp add: power_add)
  show "expo ew fw (x + 2 ^ (ew + fw)) = expo ew fw x"
    unfolding s expo_def by simp
  show "frac fw (x + 2 ^ (ew + fw)) = frac fw x"
    unfolding s frac_def by simp
qed


lemma mant_below: "mant ew fw x < 2 ^ (fw + 1)"
proof -
  have "frac fw x < 2 ^ fw" by (simp add: frac_def)
  then show ?thesis by (simp add: mant_def)
qed

lemma mant_ordered:
  assumes xy: "x \<le> y" and y: "y < inf_body ew fw"
  shows "mant ew fw x \<le> mant ew fw y * 2 ^ nat (scale ew fw y - scale ew fw x)"
proof -
  have x: "x < inf_body ew fw" using xy y by simp
  note fx = below_inf_fields [OF x] and fy = below_inf_fields [OF y]
  define P :: nat where "P = 2 ^ fw"
  define k where "k = nat (scale ew fw y - scale ew fw x)"
  have exy: "expo ew fw x \<le> expo ew fw y"
    using xy by (simp add: fx(2) fy(2) div_le_mono)
  have fxP: "frac fw x < P" and fyP: "frac fw y < P" by (simp_all add: frac_def P_def)
  have one: "(1::nat) \<le> 2 ^ k" by simp
  show ?thesis
  proof (cases "expo ew fw x = expo ew fw y")
    case True
    have "x = x div 2 ^ fw * 2 ^ fw + x mod 2 ^ fw"
      and "y = y div 2 ^ fw * 2 ^ fw + y mod 2 ^ fw"
      by (rule div_mult_mod_eq [symmetric])+
    moreover have "x div 2 ^ fw = y div 2 ^ fw" using True by (simp add: fx(2) fy(2))
    ultimately have "x mod 2 ^ fw \<le> y mod 2 ^ fw" using xy
      by (metis add_le_cancel_left)
    then have "mant ew fw x \<le> mant ew fw y" using True by (simp add: mant_def frac_def)
    moreover have "scale ew fw y - scale ew fw x = 0" using True by (simp add: scale_def)
    ultimately show ?thesis by simp
  next
    case False
    with exy have lt: "expo ew fw x < expo ew fw y" by simp
    then have my: "P \<le> mant ew fw y" by (simp add: mant_def P_def)
    show ?thesis
    proof (cases "expo ew fw x = 0")
      case True
      then have "mant ew fw x < P" using fxP by (simp add: mant_def)
      with my have "mant ew fw x \<le> mant ew fw y * 1" by simp
      also have "\<dots> \<le> mant ew fw y * 2 ^ k" by (rule mult_le_mono2) (rule one)
      finally show ?thesis by (simp add: k_def)
    next
      case False
      then have "mant ew fw x < 2 * P" using fxP by (simp add: mant_def P_def)
      moreover have "0 < k" using False lt by (simp add: k_def scale_def)
      then have "(2::nat) ^ 1 \<le> 2 ^ k" by (intro power_increasing) simp_all
      then have "P * 2 \<le> mant ew fw y * 2 ^ k" using my by (intro mult_le_mono) simp_all
      ultimately show ?thesis by (simp add: k_def)
    qed
  qed
qed


text \<open>Subtracting the smaller of two such numbers from the larger gives another one.\<close>

lemma fp_sub_below_inf:
  assumes ew: "2 \<le> ew" and xy: "x \<le> y" and y: "y < inf_body ew fw"
  shows "fp_sub ew fw y x < inf_body ew fw"
proof -
  have x: "x < inf_body ew fw" using xy y by simp
  note fx = below_inf_fields [OF x] and fy = below_inf_fields [OF y] and nx = neg_fields [OF x]
  define x' where "x' = x + 2 ^ (ew + fw)"
  define k where "k = nat (scale ew fw y - scale ew fw x)"
  define t where "t = int (mant ew fw y) * 2 ^ k - int (mant ew fw x)"
  have four: "(4::nat) \<le> 2 ^ ew"
  proof -
    have "(2::nat) ^ 2 \<le> 2 ^ ew" using ew by (intro power_increasing) simp_all
    then show ?thesis by simp
  qed
  have exy: "expo ew fw x \<le> expo ew fw y"
    using xy by (simp add: fx(2) fy(2) div_le_mono)
  have sxy: "scale ew fw x \<le> scale ew fw y" using exy by (simp add: scale_def)
  have ex': "expo ew fw x' = expo ew fw x" and fx': "frac fw x' = frac fw x"
    and sx': "sign_bit ew fw x'"
    using nx by (simp_all add: x'_def)
  have special: "\<not> is_nan ew fw y" "\<not> is_inf ew fw y" "\<not> is_nan ew fw x'" "\<not> is_inf ew fw x'"
    using fy(3) fx(3) by (simp_all add: is_nan_def is_inf_def ex')
  have mant': "mant ew fw x' = mant ew fw x" by (simp add: mant_def ex' fx')
  have scale': "scale ew fw x' = scale ew fw x" by (simp add: scale_def ex')
  have smant': "smant ew fw x' = - int (mant ew fw x)" by (simp add: smant_def sx' mant')
  have smant_y: "smant ew fw y = int (mant ew fw y)" by (simp add: smant_def fy(1))
  have "int (mant ew fw x) \<le> int (mant ew fw y * 2 ^ k)"
    unfolding k_def using mant_ordered [OF xy y] by (rule iffD2 [OF of_nat_le_iff])
  then have t0: "0 \<le> t" by (simp add: t_def)
  have min_s: "min (scale ew fw y) (scale ew fw x) = scale ew fw x" using sxy by simp
  have sum: "smant ew fw y * 2 ^ nat (scale ew fw y - scale ew fw x)
               + smant ew fw x' * 2 ^ nat (scale ew fw x - scale ew fw x) = t"
    by (simp add: smant_y smant' t_def k_def)
  have "fp_sub ew fw y x = fp_add ew fw y x'"
    by (simp add: fp_sub_def nx(1) x'_def)
  also have "\<dots> = (if t = 0 then sign_mask ew fw (sign_bit ew fw y \<and> sign_bit ew fw x')
                     else round_pack ew fw (t < 0) (nat \<bar>t\<bar>) (scale ew fw x))"
    by (simp only: fp_add_def Let_def special simp_thms if_False scale' min_s sum)
  also have "\<dots> = (if t = 0 then 0 else round_pack ew fw False (nat t) (scale ew fw x))"
    using t0 by (simp add: fy(1) sign_mask_def)
  finally have sub: "fp_sub ew fw y x =
               (if t = 0 then 0 else round_pack ew fw False (nat t) (scale ew fw x))" .
  show ?thesis
  proof (cases "t = 0")
    case True
    have "0 < (2 ^ ew - 1) * (2::nat) ^ fw" using four by simp
    with True show ?thesis by (simp add: sub inf_body_def)
  next
    case False
    with t0 have m: "0 < nat t" by simp
    have e: "1 - int (bias ew) - int fw \<le> scale ew fw x" by (simp add: scale_def)
    have sy: "scale ew fw y - (1 - int (bias ew) - int fw) + 3 \<le> 2 ^ ew"
    proof -
      have "max (expo ew fw y) 1 + 2 \<le> 2 ^ ew" using fy(3) four by simp
      then have "int (max (expo ew fw y) 1 + 2) \<le> int (2 ^ ew)" by (rule iffD2 [OF of_nat_le_iff])
      then show ?thesis by (simp add: scale_def)
    qed
    have le: "nat t \<le> mant ew fw y * 2 ^ nat (scale ew fw y - scale ew fw x)"
    proof -
      have "t \<le> int (mant ew fw y * 2 ^ k)" by (simp add: t_def)
      then show ?thesis unfolding k_def by linarith
    qed
    from round_pack_below_inf [OF m e sxy sy mant_below le] False
    show ?thesis by (simp add: sub)
  qed
qed

text \<open>The same for the readings of a wall clock, which are doubles.\<close>

lemma f64_below_inf:
  assumes "f64_finite a" and "\<not> f64_sign a"
  shows "unat a < inf_body 11 52"
proof -
  have u: "unat a < 2 ^ 64" using unsigned_less [of a] by simp
  then have "unat a div 2 ^ 63 < 2" by (simp add: less_mult_imp_div_less)
  with assms(2) have "unat a div 2 ^ 63 = 0"
    by (simp add: f64_sign_def sign_bit_def)
  then have "unat a < 2 ^ 63" by simp
  then have "unat a div 2 ^ 52 < 2 ^ 11" by (simp add: less_mult_imp_div_less)
  then have "expo 11 52 (unat a) = unat a div 2 ^ 52" by (simp add: expo_def)
  with assms(1) have "unat a div 2 ^ 52 < 2047" by (simp add: f64_finite_def is_finite_def)
  then have "unat a < 2047 * 2 ^ 52" by (simp add: div_less_iff_less_mult)
  then show ?thesis by (simp add: inf_body_def)
qed

lemma f64_duration:
  assumes "f64_finite a" and "\<not> f64_sign a" and "f64_finite b" and "\<not> f64_sign b"
    and "f64_le a b"
  shows "f64_finite (f64_sub b a) \<and> f64_le f64_zero (f64_sub b a)"
proof -
  define r where "r = fp_sub 11 52 (unat b) (unat a)"
  have le: "unat a \<le> unat b"
    using assms(2,4,5) by (simp add: f64_le_def fp_le_def f64_sign_def)
  have "unat b < inf_body 11 52" using assms(3,4) by (rule f64_below_inf)
  with le have r: "r < inf_body 11 52"
    unfolding r_def by (intro fp_sub_below_inf) simp_all
  note fr = below_inf_fields [OF r]
  have "r < 2 ^ 64" using r by (simp add: inf_body_def)
  then have u: "unat (f64_sub b a) = r"
    by (simp add: f64_sub_def r_def [symmetric] unat_of_nat)
  have fin: "f64_finite (f64_sub b a)"
    using fr(3) by (simp add: f64_finite_def is_finite_def u)
  have z: "\<not> is_nan 11 52 0" "\<not> sign_bit 11 52 0"
    by (simp_all add: is_nan_def expo_def sign_bit_def)
  have "\<not> is_nan 11 52 r" using fr(3) by (simp add: is_nan_def)
  then have "f64_le f64_zero (f64_sub b a)"
    using fr(1) by (simp add: f64_le_def f64_zero_def fp_le_def u z)
  with fin show ?thesis by simp
qed


text \<open>The clock of the demonstration platform is such a wall clock.\<close>

lemma demo_clock_values:
  "f64_finite 0x3FF0000000000000" "f64_finite 0x4004000000000000" "f64_finite 0x4008000000000000"
  "\<not> f64_sign 0x3FF0000000000000" "\<not> f64_sign 0x4004000000000000"
  "\<not> f64_sign 0x4008000000000000"
  by (simp_all add: f64_finite_def is_finite_def expo_def f64_sign_def sign_bit_def)

lemma demo_clock_nan:
  "\<not> is_nan 11 52 4607182418800017408" "\<not> is_nan 11 52 4612811918334230528"
  "\<not> is_nan 11 52 4613937818241073152"
  by (simp_all add: is_nan_def expo_def)

lemma demo_clock_sign:
  "\<not> sign_bit 11 52 4607182418800017408" "\<not> sign_bit 11 52 4612811918334230528"
  "\<not> sign_bit 11 52 4613937818241073152"
  by (simp_all add: sign_bit_def)

lemma demo_clock_le:
  "f64_le 0x3FF0000000000000 0x4004000000000000" "f64_le 0x4004000000000000 0x4008000000000000"
  "f64_le 0x4008000000000000 0x4008000000000000"
  by (simp_all add: f64_le_def fp_le_def demo_clock_nan demo_clock_sign)

lemma monotone_demo: "monotone_timer demo_platform"
proof -
  have "f64_finite (demo_clock k) \<and> \<not> f64_sign (demo_clock k) \<and>
        f64_le (demo_clock k) (demo_clock (Suc k))" for k
  proof (cases "k = 0")
    case True
    then show ?thesis by (simp add: demo_clock_def demo_clock_values demo_clock_le)
  next
    case False
    then show ?thesis
      by (cases "k = 1") (simp_all add: demo_clock_def demo_clock_values demo_clock_le)
  qed
  then show ?thesis by (simp add: monotone_timer_def demo_platform_def)
qed

section \<open>The claims\<close>

text \<open>
  C1. For every \<open>N > 0\<close>, on input arrays of \<open>N\<close> elements 1.0 the add kernel produces an
  array \<open>C\<close> with \<open>C[i] == 2.0\<close> at every index below \<open>N\<close>, and the multiply kernel one
  with 1.0 at every index. So do the trials of \<^verbatim>\<open>main\<close>, which allocate these inputs
  themselves, wherever the allocator has room for the four arrays of a trial. The
  elements are the patterns of 2.0 and 1.0, and equal to them under the comparison of
  IEEE-754.
\<close>

theorem trials_on_ones:
  assumes "0 < N"
  shows "(\<exists>C. vectorAdd (replicate N f32_one) (replicate N f32_one) = Inr C \<and> length C = N \<and>
            (\<forall>i<N. C ! i = f32_two \<and> f32_eq (C ! i) f32_two))
       \<and> (\<exists>C. vectorMultiply (replicate N f32_one) (replicate N f32_one) = Inr C \<and>
            length C = N \<and> (\<forall>i<N. C ! i = f32_one \<and> f32_eq (C ! i) f32_one))
       \<and> (in_use w + 4 * N \<le> capacity p \<longrightarrow>
            (\<exists>A B C t w' xs. add_trial p N w = Inr ((A, B, C, t), w') \<and> heap w' C = Some xs \<and>
               length xs = N \<and> (\<forall>i<N. xs ! i = f32_two \<and> f32_eq (xs ! i) f32_two)) \<and>
            (\<exists>E F G t w' xs. multiply_trial p N w = Inr ((E, F, G, t), w') \<and>
               heap w' G = Some xs \<and>
               length xs = N \<and> (\<forall>i<N. xs ! i = f32_one \<and> f32_eq (xs ! i) f32_one)))"
  using assms
  by (simp add: vectorAdd_ones vectorMultiply_ones add_trial_ok multiply_trial_ok
        f32_eq_two f32_eq_one)

theorem trials_on_ones_witness:
  "0 < (3::nat) \<and> in_use boot + 4 * 3 \<le> capacity demo_platform \<and>
   (\<exists>C. vectorAdd (replicate 3 f32_one) (replicate 3 f32_one) = Inr C \<and> length C = 3 \<and>
      (\<forall>i<3. C ! i = f32_two \<and> f32_eq (C ! i) f32_two)) \<and>
   (\<exists>C. vectorMultiply (replicate 3 f32_one) (replicate 3 f32_one) = Inr C \<and> length C = 3 \<and>
      (\<forall>i<3. C ! i = f32_one \<and> f32_eq (C ! i) f32_one)) \<and>
   (\<exists>A B C t w' xs. add_trial demo_platform 3 boot = Inr ((A, B, C, t), w') \<and>
      heap w' C = Some xs \<and> length xs = 3 \<and>
      (\<forall>i<3. xs ! i = f32_two \<and> f32_eq (xs ! i) f32_two)) \<and>
   (\<exists>E F G t w' xs. multiply_trial demo_platform 3 boot = Inr ((E, F, G, t), w') \<and>
      heap w' G = Some xs \<and> length xs = 3 \<and>
      (\<forall>i<3. xs ! i = f32_one \<and> f32_eq (xs ! i) f32_one))"
proof -
  have h: "0 < (3::nat)" by simp
  show ?thesis using h boot_room trials_on_ones [OF h, of boot demo_platform] by blast
qed



text \<open>
  C5. A kernel call is deterministic: for either kernel, two calls on arrays with the
  same elements return arrays with the same elements, whatever else differs between the
  two runs: the rest of the heap, the timer and its readings, the allocator.
\<close>

theorem kernel_call_deterministic:
  assumes "heap w1 a1 = Some xs" and "heap w2 a2 = Some xs"
    and "heap w1 b1 = Some ys" and "heap w2 b2 = Some ys"
    and "length xs = length ys"
    and "in_use w1 + length xs \<le> capacity p1" and "in_use w2 + length xs \<le> capacity p2"
  shows "\<exists>c1 w1' c2 w2' zs. call p1 k a1 b1 w1 = Inr (c1, w1') \<and>
           call p2 k a2 b2 w2 = Inr (c2, w2') \<and>
           heap w1' c1 = Some zs \<and> heap w2' c2 = Some zs"
  using assms by (simp add: call_ok)

theorem kernel_call_deterministic_witness:
  "heap demo_world 0 = Some [f32_one, f32_two] \<and>
   heap (demo_world\<lparr>timer_calls := 7\<rparr>) 0 = Some [f32_one, f32_two] \<and>
   heap demo_world (Suc 0) = Some [f32_two, f32_zero] \<and>
   heap (demo_world\<lparr>timer_calls := 7\<rparr>) (Suc 0) = Some [f32_two, f32_zero] \<and>
   length [f32_one, f32_two] = length [f32_two, f32_zero] \<and>
   in_use demo_world + length [f32_one, f32_two] \<le> capacity demo_platform \<and>
   in_use (demo_world\<lparr>timer_calls := 7\<rparr>) + length [f32_one, f32_two]
     \<le> capacity (demo_platform\<lparr>capacity := 6\<rparr>) \<and>
   (\<exists>c1 w1' c2 w2' zs.
      call demo_platform VectorAdd 0 (Suc 0) demo_world = Inr (c1, w1') \<and>
      call (demo_platform\<lparr>capacity := 6\<rparr>) VectorAdd 0 (Suc 0) (demo_world\<lparr>timer_calls := 7\<rparr>)
        = Inr (c2, w2') \<and>
      heap w1' c1 = Some zs \<and> heap w2' c2 = Some zs)"
proof -
  have h1: "heap demo_world 0 = Some [f32_one, f32_two]"
    and h2: "heap (demo_world\<lparr>timer_calls := 7\<rparr>) 0 = Some [f32_one, f32_two]"
    and h3: "heap demo_world (Suc 0) = Some [f32_two, f32_zero]"
    and h4: "heap (demo_world\<lparr>timer_calls := 7\<rparr>) (Suc 0) = Some [f32_two, f32_zero]"
    and h5: "length [f32_one, f32_two] = length [f32_two, f32_zero]"
    and h6: "in_use demo_world + length [f32_one, f32_two] \<le> capacity demo_platform"
    and h7: "in_use (demo_world\<lparr>timer_calls := 7\<rparr>) + length [f32_one, f32_two]
               \<le> capacity (demo_platform\<lparr>capacity := 6\<rparr>)"
    by (simp_all add: demo_world_def demo_platform_def)
  from kernel_call_deterministic [OF h1 h2 h3 h4 h5 h6 h7, of VectorAdd] h1 h2 h3 h4 h5 h6 h7
  show ?thesis by blast
qed

text \<open>
  C10. A kernel call returns a newly allocated array and leaves its inputs as they were.
  In the add trial the result \<open>C\<close> lives at a reference where no array was before; \<open>A\<close>
  and \<open>B\<close> hold 1.0 at every index afterwards; the array of zeros first bound to \<open>C\<close> is
  allocated, is the output of no call, and is freed when the name is rebound. The same
  holds of \<open>E\<close>, \<open>F\<close> and \<open>G\<close> in the multiply trial, and no array that was live before a
  trial is changed by it.
\<close>

theorem trial_leaves_arrays_alone:
  assumes "wf_world w" and "in_use w + 4 * N \<le> capacity p"
  shows "(\<exists>A B C0 C t w'. add_trial p N w = Inr ((A, B, C, t), w') \<and>
            take 7 (drop (length (trace w)) (trace w')) =
              [Alloc A N, Alloc B N, Alloc C0 N, TimerRead (timer_calls w),
               Alloc C N, Call VectorAdd A B C, Free C0] \<and>
            heap w C = None \<and> C \<noteq> C0 \<and> C \<noteq> A \<and> C \<noteq> B \<and>
            heap w' A = Some (replicate N f32_one) \<and> heap w' B = Some (replicate N f32_one) \<and>
            heap w' C0 = None \<and> (\<forall>r<next_ref w. heap w' r = heap w r))
       \<and> (\<exists>E F G0 G t w'. multiply_trial p N w = Inr ((E, F, G, t), w') \<and>
            take 7 (drop (length (trace w)) (trace w')) =
              [TimerRead (timer_calls w), Alloc E N, Alloc F N, Alloc G0 N,
               Alloc G N, Call VectorMultiply E F G, Free G0] \<and>
            heap w G = None \<and> G \<noteq> G0 \<and> G \<noteq> E \<and> G \<noteq> F \<and>
            heap w' E = Some (replicate N f32_one) \<and> heap w' F = Some (replicate N f32_one) \<and>
            heap w' G0 = None \<and> (\<forall>r<next_ref w. heap w' r = heap w r))"
  using assms by (simp add: add_trial_ok multiply_trial_ok wf_world_def)

theorem trial_leaves_arrays_alone_witness:
  "wf_world boot \<and> in_use boot + 4 * 3 \<le> capacity demo_platform \<and>
   (\<exists>A B C0 C t w'. add_trial demo_platform 3 boot = Inr ((A, B, C, t), w') \<and>
            take 7 (drop (length (trace boot)) (trace w')) =
              [Alloc A 3, Alloc B 3, Alloc C0 3, TimerRead (timer_calls boot),
               Alloc C 3, Call VectorAdd A B C, Free C0] \<and>
            heap boot C = None \<and> C \<noteq> C0 \<and> C \<noteq> A \<and> C \<noteq> B \<and>
            heap w' A = Some (replicate 3 f32_one) \<and> heap w' B = Some (replicate 3 f32_one) \<and>
            heap w' C0 = None \<and> (\<forall>r<next_ref boot. heap w' r = heap boot r))
       \<and> (\<exists>E F G0 G t w'. multiply_trial demo_platform 3 boot = Inr ((E, F, G, t), w') \<and>
            take 7 (drop (length (trace boot)) (trace w')) =
              [TimerRead (timer_calls boot), Alloc E 3, Alloc F 3, Alloc G0 3,
               Alloc G 3, Call VectorMultiply E F G, Free G0] \<and>
            heap boot G = None \<and> G \<noteq> G0 \<and> G \<noteq> E \<and> G \<noteq> F \<and>
            heap w' E = Some (replicate 3 f32_one) \<and> heap w' F = Some (replicate 3 f32_one) \<and>
            heap w' G0 = None \<and> (\<forall>r<next_ref boot. heap w' r = heap boot r))"
  using trial_leaves_arrays_alone [OF wf_boot boot_room] wf_boot boot_room by blast


text \<open>
  C6. The two trials are not chained. The multiply trial allocates its own inputs \<open>E\<close>
  and \<open>F\<close> at new references and changes no array that was live before it. Run from two
  worlds that differ in everything but the position of the clock, such as the world the
  add trial leaves and a world where the add trial never ran, it gives the same output
  array \<open>G\<close> and the same duration.
\<close>

theorem multiply_trial_independent:
  assumes "in_use w1 + 4 * N \<le> capacity p" and "in_use w2 + 4 * N \<le> capacity p"
    and "timer_calls w1 = timer_calls w2"
  shows "\<exists>E1 F1 G1 t1 w1' E2 F2 G2 t2 w2'.
           multiply_trial p N w1 = Inr ((E1, F1, G1, t1), w1') \<and>
           multiply_trial p N w2 = Inr ((E2, F2, G2, t2), w2') \<and>
           heap w1' G1 = heap w2' G2 \<and> t1 = t2 \<and>
           E1 = next_ref w1 \<and> F1 = Suc (next_ref w1) \<and>
           heap w1' E1 = Some (replicate N f32_one) \<and> heap w1' F1 = Some (replicate N f32_one) \<and>
           (\<forall>r<next_ref w1. heap w1' r = heap w1 r)"
  using assms by (simp add: multiply_trial_ok)

theorem multiply_trial_independent_witness:
  "in_use (snd (projr (add_trial demo_platform 3 boot))) + 4 * 3 \<le> capacity demo_platform \<and>
   in_use (boot\<lparr>timer_calls := 2\<rparr>) + 4 * 3 \<le> capacity demo_platform \<and>
   timer_calls (snd (projr (add_trial demo_platform 3 boot))) = timer_calls (boot\<lparr>timer_calls := 2\<rparr>) \<and>
   (\<exists>E1 F1 G1 t1 w1' E2 F2 G2 t2 w2'.
           multiply_trial demo_platform 3 (snd (projr (add_trial demo_platform 3 boot)))
             = Inr ((E1, F1, G1, t1), w1') \<and>
           multiply_trial demo_platform 3 (boot\<lparr>timer_calls := 2\<rparr>) = Inr ((E2, F2, G2, t2), w2') \<and>
           heap w1' G1 = heap w2' G2 \<and> t1 = t2 \<and>
           E1 = next_ref (snd (projr (add_trial demo_platform 3 boot))) \<and>
           F1 = Suc (next_ref (snd (projr (add_trial demo_platform 3 boot)))) \<and>
           heap w1' E1 = Some (replicate 3 f32_one) \<and> heap w1' F1 = Some (replicate 3 f32_one) \<and>
           (\<forall>r<next_ref (snd (projr (add_trial demo_platform 3 boot))).
              heap w1' r = heap (snd (projr (add_trial demo_platform 3 boot))) r))"
proof -
  obtain res w1 where a: "add_trial demo_platform 3 boot = Inr (res, w1)"
    and u: "in_use w1 = 9" and c: "timer_calls w1 = 2"
    using after_add_trial by blast
  have w1: "snd (projr (add_trial demo_platform 3 boot)) = w1" by (simp add: a)
  have h1: "in_use w1 + 4 * 3 \<le> capacity demo_platform"
    by (simp add: u demo_platform_def)
  have h2: "in_use (boot\<lparr>timer_calls := 2\<rparr>) + 4 * 3 \<le> capacity demo_platform"
    by (simp add: boot_def demo_platform_def)
  have h3: "timer_calls w1 = timer_calls (boot\<lparr>timer_calls := 2\<rparr>)"
    by (simp add: c)
  from multiply_trial_independent [OF h1 h2 h3] h1 h2 h3 show ?thesis
    unfolding w1 by blast
qed


text \<open>
  C2. Each trial allocates its input arrays before it starts its timer, so that the
  duration covers the kernel call alone. The add trial does: between its two timer
  readings lie the call, the allocation of the result and the release of the zeros. The
  multiply trial reads the timer first: between its two readings lie the allocations of
  \<open>E\<close>, \<open>F\<close> and the zeros as well.
\<close>

theorem multiply_timer_spans_allocation:
  assumes "in_use w + 4 * N \<le> capacity p"
  shows "(\<exists>A B C0 C t w'. add_trial p N w = Inr ((A, B, C, t), w') \<and>
            take 8 (drop (length (trace w)) (trace w')) =
              [Alloc A N, Alloc B N, Alloc C0 N,
               TimerRead (timer_calls w),
               Alloc C N, Call VectorAdd A B C, Free C0,
               TimerRead (Suc (timer_calls w))])
       \<and> (\<exists>E F G0 G t w'. multiply_trial p N w = Inr ((E, F, G, t), w') \<and>
            take 8 (drop (length (trace w)) (trace w')) =
              [TimerRead (timer_calls w),
               Alloc E N, Alloc F N, Alloc G0 N,
               Alloc G N, Call VectorMultiply E F G, Free G0,
               TimerRead (Suc (timer_calls w))])"
  using assms by (simp add: add_trial_ok multiply_trial_ok)

theorem multiply_timer_spans_allocation_witness:
  "in_use boot + 4 * 3 \<le> capacity demo_platform \<and>
   (\<exists>A B C0 C t w'. add_trial demo_platform 3 boot = Inr ((A, B, C, t), w') \<and>
            take 8 (drop (length (trace boot)) (trace w')) =
              [Alloc A 3, Alloc B 3, Alloc C0 3,
               TimerRead (timer_calls boot),
               Alloc C 3, Call VectorAdd A B C, Free C0,
               TimerRead (Suc (timer_calls boot))])
       \<and> (\<exists>E F G0 G t w'. multiply_trial demo_platform 3 boot = Inr ((E, F, G, t), w') \<and>
            take 8 (drop (length (trace boot)) (trace w')) =
              [TimerRead (timer_calls boot),
               Alloc E 3, Alloc F 3, Alloc G0 3,
               Alloc G 3, Call VectorMultiply E F G, Free G0,
               TimerRead (Suc (timer_calls boot))])"
  using multiply_timer_spans_allocation [OF boot_room] boot_room by blast

text \<open>
  C9. Each trial prints two lines, one with the first and last five elements and one
  with the seconds. It does not: the add trial on three elements prints three strings.
\<close>

theorem add_trial_prints_three:
  "printed (trace (snd (projr (add_trial demo_platform 3 boot)))) =
     [''C[:5] = [###]'', ''C[-5:] = [###]'', ''VectorAdd took %f seconds''] \<and>
   length (printed (trace (snd (projr (add_trial demo_platform 3 boot))))) \<noteq> 2"
proof -
  have e: "printed (trace (snd (projr (add_trial demo_platform 3 boot)))) =
          printed (trace boot) @
          [''C[:5] = '' @ str_ndarray demo_platform (replicate 3 f32_two),
           ''C[-5:] = '' @ str_ndarray demo_platform (replicate 3 f32_two),
           ''VectorAdd took '' @
             fmt_f demo_platform (f64_sub (timer_reading demo_platform (Suc (timer_calls boot)))
                                    (timer_reading demo_platform (timer_calls boot))) @
             '' seconds'']"
    by (simp add: add_trial_ok [OF boot_room] printed_append)
  show ?thesis
    unfolding e by (simp add: boot_def demo_platform_def numeral_3_eq_3)
qed

text \<open>
  C9, amended. Each trial that runs to its end makes three calls of \<^verbatim>\<open>print\<close>: the first
  five elements of the result, its last five elements (all of them when there are fewer
  than five), and the seconds. Each call prints one line as long as the rendering of the
  slice holds no line break.
\<close>

theorem trial_prints_three_lines:
  assumes "in_use w + 4 * N \<le> capacity p"
  shows "(\<exists>A B C t w' xs. add_trial p N w = Inr ((A, B, C, t), w') \<and> heap w' C = Some xs \<and>
            printed (drop (length (trace w)) (trace w')) =
              [''C[:5] = '' @ str_ndarray p (take 5 xs),
               ''C[-5:] = '' @ str_ndarray p (drop (length xs - 5) xs),
               ''VectorAdd took '' @ fmt_f p t @ '' seconds''])
       \<and> (\<exists>E F G t w' xs. multiply_trial p N w = Inr ((E, F, G, t), w') \<and> heap w' G = Some xs \<and>
            printed (drop (length (trace w)) (trace w')) =
              [''G[:5] = '' @ str_ndarray p (take 5 xs),
               ''G[-5:] = '' @ str_ndarray p (drop (length xs - 5) xs),
               ''VectorMultiply took '' @ fmt_f p t @ '' seconds''])"
  using assms by (simp add: add_trial_ok multiply_trial_ok)

theorem trial_prints_three_lines_witness:
  "in_use boot + 4 * 3 \<le> capacity demo_platform \<and>
   (\<exists>A B C t w' xs. add_trial demo_platform 3 boot = Inr ((A, B, C, t), w') \<and>
            heap w' C = Some xs \<and>
            printed (drop (length (trace boot)) (trace w')) =
              [''C[:5] = '' @ str_ndarray demo_platform (take 5 xs),
               ''C[-5:] = '' @ str_ndarray demo_platform (drop (length xs - 5) xs),
               ''VectorAdd took '' @ fmt_f demo_platform t @ '' seconds''])
       \<and> (\<exists>E F G t w' xs. multiply_trial demo_platform 3 boot = Inr ((E, F, G, t), w') \<and>
            heap w' G = Some xs \<and>
            printed (drop (length (trace boot)) (trace w')) =
              [''G[:5] = '' @ str_ndarray demo_platform (take 5 xs),
               ''G[-5:] = '' @ str_ndarray demo_platform (drop (length xs - 5) xs),
               ''VectorMultiply took '' @ fmt_f demo_platform t @ '' seconds''])"
  using trial_prints_three_lines [OF boot_room] boot_room by blast

text \<open>
  C4. A request for a kernel other than add and multiply fails with InvalidOperation
  before anything is allocated. The only place a request can come from is the command
  line, which the script does not read: started with \<^verbatim>\<open>subtract\<close> it runs \<^verbatim>\<open>main\<close> to
  its end, and its first effects are the allocations of \<open>A\<close>, \<open>B\<close> and the zeros.
\<close>

theorem unknown_kernel_still_runs:
  "script demo_platform [''subtract''] boot = main demo_platform boot \<and>
   \<not> isl (script demo_platform [''subtract''] boot) \<and>
   take 3 (trace (snd (projr (script demo_platform [''subtract''] boot)))) =
     [Alloc 0 32000000, Alloc 1 32000000, Alloc 2 32000000]"
  using main_N_ok [OF boot_room_main]
  by (simp add: script_def main_def boot_def)


text \<open>
  C4, amended. The benchmark takes no kernel selector. Whatever the command line holds,
  the script is \<^verbatim>\<open>main\<close>: with room for its seven arrays it calls \<^verbatim>\<open>vectorAdd\<close> and then
  \<^verbatim>\<open>vectorMultiply\<close> and ends, and short of that room it fails with \<^verbatim>\<open>MemoryError\<close>.
  No other failure exists.
\<close>

theorem script_ignores_request:
  "script p argv w = main p w \<and>
   (if in_use w + 7 * 32000000 \<le> capacity p
    then \<exists>w'. script p argv w = Inr ((), w') \<and>
           [ev \<leftarrow> drop (length (trace w)) (trace w'). \<exists>k a b c. ev = Call k a b c] =
             [Call VectorAdd (next_ref w) (next_ref w + 1) (next_ref w + 3),
              Call VectorMultiply (next_ref w + 4) (next_ref w + 5) (next_ref w + 7)]
    else script p argv w = Inl MemoryError)"
  by (simp add: script_def main_def main_N_ok main_N_fails)

theorem script_ignores_request_witness:
  "in_use boot + 7 * 32000000 \<le> capacity demo_platform \<and>
   script demo_platform [''subtract''] boot = main demo_platform boot \<and>
   (\<exists>w'. script demo_platform [''subtract''] boot = Inr ((), w') \<and>
      [ev \<leftarrow> drop (length (trace boot)) (trace w'). \<exists>k a b c. ev = Call k a b c] =
        [Call VectorAdd (next_ref boot) (next_ref boot + 1) (next_ref boot + 3),
         Call VectorMultiply (next_ref boot + 4) (next_ref boot + 5) (next_ref boot + 7)]) \<and>
   \<not> in_use boot + 7 * 32000000 \<le> capacity (demo_platform\<lparr>capacity := 100\<rparr>) \<and>
   script (demo_platform\<lparr>capacity := 100\<rparr>) [''subtract''] boot = Inl MemoryError"
proof -
  have h: "\<not> in_use boot + 7 * 32000000 \<le> capacity (demo_platform\<lparr>capacity := 100\<rparr>)"
    by (simp add: boot_def)
  note r = boot_room_main
  have a: "script demo_platform [''subtract''] boot = main demo_platform boot \<and>
   (\<exists>w'. script demo_platform [''subtract''] boot = Inr ((), w') \<and>
      [ev \<leftarrow> drop (length (trace boot)) (trace w'). \<exists>k a b c. ev = Call k a b c] =
        [Call VectorAdd (next_ref boot) (next_ref boot + 1) (next_ref boot + 3),
         Call VectorMultiply (next_ref boot + 4) (next_ref boot + 5) (next_ref boot + 7)])"
    by (rule script_ignores_request [of demo_platform "[''subtract'']" boot,
          unfolded if_P [OF r]])
  have b: "script (demo_platform\<lparr>capacity := 100\<rparr>) [''subtract''] boot = Inl MemoryError"
    using script_ignores_request [of "demo_platform\<lparr>capacity := 100\<rparr>" "[''subtract'']" boot,
            unfolded if_not_P [OF h]]
    by (rule conjunct2)
  show ?thesis using a b r h by blast
qed

text \<open>
  C8. At \<open>N = 1\<close> the result has the one right element, 2.0 for add and 1.0 for multiply.
  At \<open>N = 0\<close> both kernels and both trials return the empty array, and none of them
  fails: the code takes the second of the two behaviours, for add and multiply alike.
  The trials are run where the allocator has room for their four arrays.
\<close>

theorem boundary_sizes:
  "vectorAdd [f32_one] [f32_one] = Inr [f32_two] \<and>
   vectorMultiply [f32_one] [f32_one] = Inr [f32_one] \<and>
   vectorAdd [] [] = Inr [] \<and> vectorMultiply [] [] = Inr [] \<and>
   (in_use w + 4 \<le> capacity p \<longrightarrow>
      (\<exists>A B C t w'. add_trial p 1 w = Inr ((A, B, C, t), w') \<and> heap w' C = Some [f32_two]) \<and>
      (\<exists>E F G t w'. multiply_trial p 1 w = Inr ((E, F, G, t), w') \<and>
         heap w' G = Some [f32_one]) \<and>
      (\<exists>A B C t w'. add_trial p 0 w = Inr ((A, B, C, t), w') \<and> heap w' C = Some []) \<and>
      (\<exists>E F G t w'. multiply_trial p 0 w = Inr ((E, F, G, t), w') \<and> heap w' G = Some []))"
proof -
  have k: "vectorAdd [f32_one] [f32_one] = Inr [f32_two]"
    "vectorMultiply [f32_one] [f32_one] = Inr [f32_one]"
    "vectorAdd [] [] = Inr []" "vectorMultiply [] [] = Inr []"
    using vectorAdd_ones [of 1] vectorMultiply_ones [of 1]
      vectorAdd_ones [of 0] vectorMultiply_ones [of 0]
    by simp_all
  have t: "(\<exists>A B C t w'. add_trial p 1 w = Inr ((A, B, C, t), w') \<and> heap w' C = Some [f32_two]) \<and>
      (\<exists>E F G t w'. multiply_trial p 1 w = Inr ((E, F, G, t), w') \<and>
         heap w' G = Some [f32_one]) \<and>
      (\<exists>A B C t w'. add_trial p 0 w = Inr ((A, B, C, t), w') \<and> heap w' C = Some []) \<and>
      (\<exists>E F G t w'. multiply_trial p 0 w = Inr ((E, F, G, t), w') \<and> heap w' G = Some [])"
    if room: "in_use w + 4 \<le> capacity p"
  proof -
    have one: "in_use w + 4 * Suc 0 \<le> capacity p" and none: "in_use w + 4 * 0 \<le> capacity p"
      using room by simp_all
    show ?thesis
      by (simp add: add_trial_ok [OF one] multiply_trial_ok [OF one]
            add_trial_ok [OF none] multiply_trial_ok [OF none])
  qed
  from k t show ?thesis by blast
qed

theorem boundary_sizes_witness:
  "in_use boot + 4 \<le> capacity demo_platform \<and>
   vectorAdd [f32_one] [f32_one] = Inr [f32_two] \<and>
   vectorMultiply [f32_one] [f32_one] = Inr [f32_one] \<and>
   vectorAdd [] [] = Inr [] \<and> vectorMultiply [] [] = Inr [] \<and>
   (\<exists>A B C t w'. add_trial demo_platform 1 boot = Inr ((A, B, C, t), w') \<and>
      heap w' C = Some [f32_two]) \<and>
   (\<exists>E F G t w'. multiply_trial demo_platform 1 boot = Inr ((E, F, G, t), w') \<and>
      heap w' G = Some [f32_one]) \<and>
   (\<exists>A B C t w'. add_trial demo_platform 0 boot = Inr ((A, B, C, t), w') \<and>
      heap w' C = Some []) \<and>
   (\<exists>E F G t w'. multiply_trial demo_platform 0 boot = Inr ((E, F, G, t), w') \<and>
      heap w' G = Some [])"
  using boundary_sizes [of boot demo_platform] boot_room_one by blast

text \<open>
  C7. With a wall clock that never runs backwards, the duration each trial reports, the
  reading at the stop minus the reading at the start, is a finite double and at least
  zero. The clock readings are finite doubles with a clear sign bit, and the difference
  is the rounded binary64 subtraction Python computes.
\<close>

theorem durations_finite_nonneg:
  assumes "monotone_timer p" and "in_use w + 4 * N \<le> capacity p"
  shows "(\<exists>A B C t w'. add_trial p N w = Inr ((A, B, C, t), w') \<and>
            t = f64_sub (timer_reading p (Suc (timer_calls w))) (timer_reading p (timer_calls w)) \<and>
            last (printed (trace w')) = ''VectorAdd took '' @ fmt_f p t @ '' seconds'' \<and>
            f64_finite t \<and> f64_le f64_zero t)
       \<and> (\<exists>E F G t w'. multiply_trial p N w = Inr ((E, F, G, t), w') \<and>
            t = f64_sub (timer_reading p (Suc (timer_calls w))) (timer_reading p (timer_calls w)) \<and>
            last (printed (trace w')) = ''VectorMultiply took '' @ fmt_f p t @ '' seconds'' \<and>
            f64_finite t \<and> f64_le f64_zero t)"
proof -
  let ?a = "timer_reading p (timer_calls w)" and ?b = "timer_reading p (Suc (timer_calls w))"
  from assms(1) have "f64_finite ?a" "\<not> f64_sign ?a" "f64_finite ?b" "\<not> f64_sign ?b"
    "f64_le ?a ?b"
    by (simp_all add: monotone_timer_def)
  then have "f64_finite (f64_sub ?b ?a) \<and> f64_le f64_zero (f64_sub ?b ?a)"
    by (rule f64_duration)
  then show ?thesis
    by (simp add: add_trial_ok [OF assms(2)] multiply_trial_ok [OF assms(2)] printed_append)
qed

theorem durations_finite_nonneg_witness:
  "monotone_timer demo_platform \<and> in_use boot + 4 * 3 \<le> capacity demo_platform \<and>
   (\<exists>A B C t w'. add_trial demo_platform 3 boot = Inr ((A, B, C, t), w') \<and>
      t = f64_sub (timer_reading demo_platform (Suc (timer_calls boot)))
            (timer_reading demo_platform (timer_calls boot)) \<and>
      last (printed (trace w')) = ''VectorAdd took '' @ fmt_f demo_platform t @ '' seconds'' \<and>
      f64_finite t \<and> f64_le f64_zero t) \<and>
   (\<exists>E F G t w'. multiply_trial demo_platform 3 boot = Inr ((E, F, G, t), w') \<and>
      t = f64_sub (timer_reading demo_platform (Suc (timer_calls boot)))
            (timer_reading demo_platform (timer_calls boot)) \<and>
      last (printed (trace w')) = ''VectorMultiply took '' @ fmt_f demo_platform t @ '' seconds'' \<and>
      f64_finite t \<and> f64_le f64_zero t)"
  using durations_finite_nonneg [OF monotone_demo boot_room] monotone_demo boot_room by blast

end
